theory Spec2Isabelle
  imports Main "HOL-Library.Sublist"
begin

section \<open>Values, exceptions and generators\<close>

text \<open>
  The fields the program reads from the output of \<^verbatim>\<open>ip --json\<close> are JSON strings;
  \<^verbatim>\<open>dict.get\<close> gives \<^verbatim>\<open>None\<close> for an absent key (and \<^verbatim>\<open>json.loads\<close> gives
  \<^verbatim>\<open>None\<close> for \<^verbatim>\<open>null\<close>). A Python \<^verbatim>\<open>str\<close> is modelled by a \<open>string\<close> whose
  characters are the code points below 256.
\<close>

datatype pyval = PNone | PStr string

text \<open>\<^verbatim>\<open>str(v)\<close>, which is what the f-string \<^verbatim>\<open>{address}\<close> inserts.\<close>

fun py_str :: "pyval \<Rightarrow> string" where
  "py_str PNone = ''None''"
| "py_str (PStr s) = s"

text \<open>
  The exceptions that end a run. \<open>UnmodelledPattern\<close> is no exception of Python: it
  marks a regular expression outside the fragment of the \<^verbatim>\<open>re\<close> library that
  \<open>re_search\<close> below covers.
\<close>

datatype exn =
    CalledProcessError
  | JSONDecodeError
  | ReError
  | UnmodelledPattern
  | StopIteration
  | KeyError
  | HTTPError
  | OtherError string

text \<open>
  A generator that is run to its end: the values it yielded, in order, the exception
  that ended it (\<open>None\<close> when it returned), and the external commands it ran, in
  order, each with its argument vector.
\<close>

record 'a gen =
  yields :: "'a list"
  raised :: "exn option"
  calls :: "string list list"

section \<open>The regular expressions of the sieve\<close>

definition nl :: char where
  "nl = CHR 0x0A"

definition backslash :: char where
  "backslash = CHR 0x5C"

text \<open>
  \<^verbatim>\<open>\w\<close> of a \<^verbatim>\<open>str\<close> pattern: an alphanumeric code point (\<^verbatim>\<open>str.isalnum\<close>) or the
  underscore. Below 256 these are the ASCII letters and digits and, in Latin-1, the
  letters, the superscript digits and the fractions.
\<close>

definition is_word :: "char \<Rightarrow> bool" where
  "is_word c =
     (let n = (of_char c :: nat) in
        (48 \<le> n \<and> n \<le> 57) \<or> (65 \<le> n \<and> n \<le> 90) \<or> n = 95 \<or> (97 \<le> n \<and> n \<le> 122)
        \<or> n = 170 \<or> n = 178 \<or> n = 179 \<or> n = 181 \<or> n = 185 \<or> n = 186
        \<or> (188 \<le> n \<and> n \<le> 190) \<or> (192 \<le> n \<and> n \<le> 214) \<or> (216 \<le> n \<and> n \<le> 246)
        \<or> 248 \<le> n)"

text \<open>The whitespace that \<^verbatim>\<open>re.VERBOSE\<close> skips: space, tab, newline, return, VT, FF.\<close>

definition is_space :: "char \<Rightarrow> bool" where
  "is_space c = (c = CHR '' '' \<or> c = CHR 0x09 \<or> c = nl \<or> c = CHR 0x0D \<or> c = CHR 0x0B \<or> c = CHR 0x0C)"

text \<open>
  The characters with a meaning of their own in a pattern, beside the dot and the
  backslash, which the parser treats before: \<^verbatim>\<open>[ { ( ) * + ? ^ $ |\<close>.
\<close>

definition is_meta :: "char \<Rightarrow> bool" where
  "is_meta c = (c \<in> set ''[{()*+?^$|'')"

datatype atom = Boundary | AnyChar | Lit char

datatype mode = Normal | Comment | Escape

text \<open>
  The parser of \<^verbatim>\<open>re\<close> under \<^verbatim>\<open>re.VERBOSE\<close>, on the fragment of patterns made of
  literals, the dot, \<^verbatim>\<open>\b\<close>, whitespace and comments (\<^verbatim>\<open>#\<close> to the end of the line);
  \<open>None\<close> for any other pattern.
\<close>

fun parse :: "mode \<Rightarrow> string \<Rightarrow> atom list option" where
  "parse Normal [] = Some []"
| "parse Comment [] = Some []"
| "parse Escape [] = None"
| "parse Comment (c # cs) = parse (if c = nl then Normal else Comment) cs"
| "parse Escape (c # cs) =
     (if c = CHR ''b'' then map_option (Cons Boundary) (parse Normal cs) else None)"
| "parse Normal (c # cs) =
     (if is_space c then parse Normal cs
      else if c = CHR ''#'' then parse Comment cs
      else if c = backslash then parse Escape cs
      else if c = CHR ''.'' then map_option (Cons AnyChar) (parse Normal cs)
      else if is_meta c then None
      else map_option (Cons (Lit c)) (parse Normal cs))"

text \<open>
  \<^verbatim>\<open>\b\<close>: the characters before and after the position differ in being word
  characters, the start and the end of the text counting as not a word character.
\<close>

definition word_opt :: "char option \<Rightarrow> bool" where
  "word_opt p = (case p of None \<Rightarrow> False | Some c \<Rightarrow> is_word c)"

definition next_char :: "string \<Rightarrow> char option" where
  "next_char t = (case t of [] \<Rightarrow> None | c # _ \<Rightarrow> Some c)"

definition at_boundary :: "char option \<Rightarrow> string \<Rightarrow> bool" where
  "at_boundary prev t = (word_opt prev \<noteq> word_opt (next_char t))"

text \<open>
  Matching the atoms at one position: \<open>prev\<close> is the character before the position,
  the string is the text from the position on. The dot matches any character but
  the newline (no \<^verbatim>\<open>re.DOTALL\<close>).
\<close>

fun match_here :: "atom list \<Rightarrow> char option \<Rightarrow> string \<Rightarrow> bool" where
  "match_here [] prev t = True"
| "match_here (Boundary # as) prev t = (at_boundary prev t \<and> match_here as prev t)"
| "match_here (AnyChar # as) prev [] = False"
| "match_here (AnyChar # as) prev (c # cs) = (c \<noteq> nl \<and> match_here as (Some c) cs)"
| "match_here (Lit x # as) prev [] = False"
| "match_here (Lit x # as) prev (c # cs) = (c = x \<and> match_here as (Some c) cs)"

text \<open>\<^verbatim>\<open>re.search\<close> tries every position of the text, from the left.\<close>

fun search_from :: "atom list \<Rightarrow> char option \<Rightarrow> string \<Rightarrow> bool" where
  "search_from as prev [] = match_here as prev []"
| "search_from as prev (c # cs) = (match_here as prev (c # cs) \<or> search_from as (Some c) cs)"

text \<open>
  \<^verbatim>\<open>re.search(pattern, text, re.VERBOSE)\<close> read as a truth value (a match object is
  true, \<^verbatim>\<open>None\<close> is false).
\<close>

definition re_search :: "string \<Rightarrow> string \<Rightarrow> exn + bool" where
  "re_search p t =
     (case parse Normal p of
        None \<Rightarrow> Inl UnmodelledPattern
      | Some as \<Rightarrow> Inr (search_from as None t))"

section \<open>The route sieve\<close>

definition GLOBAL_V4_ADDRESS :: string where
  "GLOBAL_V4_ADDRESS = ''192.0.2.0''"

definition GLOBAL_V6_ADDRESS :: string where
  "GLOBAL_V6_ADDRESS = ''2001:db8::''"

text \<open>
  The pattern of \<^verbatim>\<open>_sieve_addresses_family\<close>, a raw f-string over five lines: a
  newline and 16 spaces, \<^verbatim>\<open>\b\<close>, a newline and 16 spaces, the address, a newline and
  16 spaces, \<^verbatim>\<open>\b\<close>, a newline and 12 spaces.
\<close>

definition sieve_pattern :: "pyval \<Rightarrow> string" where
  "sieve_pattern address =
     nl # ''                '' @ [backslash, CHR ''b'']
     @ nl # ''                '' @ py_str address
     @ nl # ''                '' @ [backslash, CHR ''b'']
     @ nl # ''            ''"

text \<open>
  The loop of \<^verbatim>\<open>_sieve_addresses_family\<close> over the candidates: the addresses yielded
  and the exception of \<^verbatim>\<open>re.search\<close> that stopped it, if any. \<open>search\<close> is
  \<^verbatim>\<open>re.search\<close> with \<^verbatim>\<open>re.VERBOSE\<close>.
\<close>

fun sieve_loop ::
  "(string \<Rightarrow> string \<Rightarrow> exn + bool) \<Rightarrow> string \<Rightarrow> pyval list \<Rightarrow> pyval list \<times> exn option" where
  "sieve_loop search out [] = ([], None)"
| "sieve_loop search out (address # addresses) =
     (case search (sieve_pattern address) out of
        Inl e \<Rightarrow> ([], Some e)
      | Inr found \<Rightarrow>
          (let (ys, r) = sieve_loop search out addresses
           in (if found then address # ys else ys, r)))"

text \<open>
  \<^verbatim>\<open>_sieve_addresses_family\<close>. \<open>command\<close> is \<^verbatim>\<open>_command\<close>: from the argument vector
  to the captured standard output, or to the exception of a failed run.
\<close>

definition route_args :: "bool \<Rightarrow> string list" where
  "route_args v4 = [''ip'', ''route'', ''get'', (if v4 then GLOBAL_V4_ADDRESS else GLOBAL_V6_ADDRESS)]"

definition sieve_addresses_family ::
  "(string \<Rightarrow> string \<Rightarrow> exn + bool) \<Rightarrow> (string list \<Rightarrow> exn + string) \<Rightarrow>
   pyval list \<Rightarrow> bool \<Rightarrow> pyval gen" where
  "sieve_addresses_family search command addresses v4 =
     (if addresses = [] then \<lparr>yields = [], raised = None, calls = []\<rparr>
      else
        (case command (route_args v4) of
           Inl e \<Rightarrow> \<lparr>yields = [], raised = Some e, calls = [route_args v4]\<rparr>
         | Inr out \<Rightarrow>
             (let (ys, r) = sieve_loop search out addresses
              in \<lparr>yields = ys, raised = r, calls = [route_args v4]\<rparr>)))"

text \<open>
  \<^verbatim>\<open>_sieve_addresses\<close>: the IPv4 generator, then the IPv6 one; an exception of the
  first ends the whole generator before the second starts.
\<close>

definition sieve_addresses ::
  "(string \<Rightarrow> string \<Rightarrow> exn + bool) \<Rightarrow> (string list \<Rightarrow> exn + string) \<Rightarrow>
   pyval list \<Rightarrow> pyval list \<Rightarrow> pyval gen" where
  "sieve_addresses search command v4addresses v6addresses =
     (let g4 = sieve_addresses_family search command v4addresses True
      in (case raised g4 of
            Some e \<Rightarrow> g4
          | None \<Rightarrow>
              (let g6 = sieve_addresses_family search command v6addresses False
               in \<lparr>yields = yields g4 @ yields g6, raised = raised g6,
                   calls = calls g4 @ calls g6\<rparr>)))"

section \<open>Address discovery\<close>

text \<open>
  One entry of \<^verbatim>\<open>addr_info\<close>: a dictionary from keys to values. \<^verbatim>\<open>d.get(k)\<close> is
  \<^verbatim>\<open>None\<close> where the key is absent.
\<close>

type_synonym pydict = "string \<rightharpoonup> pyval"

definition dict_get :: "pydict \<Rightarrow> string \<Rightarrow> pyval" where
  "dict_get d k = (case d k of None \<Rightarrow> PNone | Some v \<Rightarrow> v)"

text \<open>
  \<^verbatim>\<open>_separate_family\<close>: the loop appends the value of \<^verbatim>\<open>local\<close> (whatever it is: the
  capture pattern \<^verbatim>\<open>addr\<close> matches every value) to the list of the family.
\<close>

fun separate_loop :: "pyval list \<Rightarrow> pyval list \<Rightarrow> pydict list \<Rightarrow> pyval list \<times> pyval list" where
  "separate_loop v4addresses v6addresses [] = (v4addresses, v6addresses)"
| "separate_loop v4addresses v6addresses (addr_info # addr_infos) =
     (let family = dict_get addr_info ''family''; addr = dict_get addr_info ''local''
      in if family = PStr ''inet'' then separate_loop (v4addresses @ [addr]) v6addresses addr_infos
         else if family = PStr ''inet6'' then separate_loop v4addresses (v6addresses @ [addr]) addr_infos
         else separate_loop v4addresses v6addresses addr_infos)"

definition separate_family :: "pydict list \<Rightarrow> pyval list \<times> pyval list" where
  "separate_family addr_infos = separate_loop [] [] addr_infos"

text \<open>
  An interface object of the listing: only its key \<^verbatim>\<open>addr_info\<close> is read, with the
  empty list for an absent key.
\<close>

record iface =
  addr_info :: "pydict list option"

definition aigetter :: "iface \<Rightarrow> pydict list" where
  "aigetter i = (case addr_info i of None \<Rightarrow> [] | Some infos \<Rightarrow> infos)"

definition address_args :: "string list" where
  "address_args = [''ip'', ''--json'', ''address'', ''show'', ''scope'', ''global'']"

text \<open>
  \<^verbatim>\<open>_get_ip_addresses\<close>. The command and \<^verbatim>\<open>json.loads\<close> (the parameter \<open>loads\<close>) run
  when the function is called, and an exception of theirs is the result \<open>Inl\<close>;
  the sieve is the generator that the function returns.
\<close>

definition get_ip_addresses ::
  "(string \<Rightarrow> string \<Rightarrow> exn + bool) \<Rightarrow> (string list \<Rightarrow> exn + string) \<Rightarrow>
   (string \<Rightarrow> exn + iface list) \<Rightarrow> exn + pyval gen" where
  "get_ip_addresses search command loads =
     (case command address_args of
        Inl e \<Rightarrow> Inl e
      | Inr out \<Rightarrow>
          (case loads out of
             Inl e \<Rightarrow> Inl e
           | Inr ifs \<Rightarrow>
               (let (v4addresses, v6addresses) = separate_family (concat (map aigetter ifs));
                    g = sieve_addresses search command v4addresses v6addresses
                in Inr (g\<lparr>calls := address_args # calls g\<rparr>))))"

section \<open>What the specification calls a match\<close>

text \<open>
  The address as a literal, character for character, with a word boundary on each
  side: the search for \<^verbatim>\<open>\b\<close>, the characters of the address, \<^verbatim>\<open>\b\<close>.
\<close>

definition literal_word_match :: "string \<Rightarrow> string \<Rightarrow> bool" where
  "literal_word_match a t = search_from (Boundary # map Lit a @ [Boundary]) None t"

text \<open>
  What the pattern of the sieve is for an address of plain characters (no whitespace,
  no \<^verbatim>\<open>#\<close>, no backslash, no other special character): each dot of the address is
  the dot of the regular expression.
\<close>

definition plain :: "char \<Rightarrow> bool" where
  "plain c = (\<not> is_space c \<and> c \<noteq> CHR ''#'' \<and> c \<noteq> backslash \<and> \<not> is_meta c)"

definition atom_of :: "char \<Rightarrow> atom" where
  "atom_of c = (if c = CHR ''.'' then AnyChar else Lit c)"

text \<open>The character before the position that follows \<open>pre\<close>.\<close>

definition last_opt :: "char option \<Rightarrow> string \<Rightarrow> char option" where
  "last_opt prev pre = (if pre = [] then prev else Some (last pre))"

section \<open>An example of route lookups\<close>

text \<open>
  The output of \<^verbatim>\<open>ip route get\<close> on a host with the addresses \<^verbatim>\<open>10.0.0.5\<close> and
  \<^verbatim>\<open>2001:db8:1::5\<close>, and a command that answers the two route lookups with it.
\<close>

definition example_out4 :: string where
  "example_out4 = ''192.0.2.0 via 10.0.0.1 dev eth0 src 10.0.0.5 uid 0'' @ [nl]"

definition example_out6 :: string where
  "example_out6 = ''2001:db8:: via fe80::1 dev eth0 src 2001:db8:1::5 metric 100'' @ [nl]"

definition example_command :: "string list \<Rightarrow> exn + string" where
  "example_command args =
     (if args = [''ip'', ''route'', ''get'', ''192.0.2.0''] then Inr example_out4
      else if args = [''ip'', ''route'', ''get'', ''2001:db8::''] then Inr example_out6
      else Inl CalledProcessError)"

section \<open>What the specification says of the family splitter\<close>

text \<open>
  The strings in the field \<^verbatim>\<open>local\<close> of the entries of one family, in the order of
  the entries.
\<close>

fun local_strings :: "string \<Rightarrow> pydict list \<Rightarrow> string list" where
  "local_strings fam [] = []"
| "local_strings fam (d # ds) =
     (if dict_get d ''family'' = PStr fam
      then (case dict_get d ''local'' of
              PStr s \<Rightarrow> s # local_strings fam ds
            | PNone \<Rightarrow> local_strings fam ds)
      else local_strings fam ds)"

section \<open>An example of a discovery\<close>

text \<open>
  A host with a loopback interface without global addresses and one interface with
  the addresses \<^verbatim>\<open>203.0.113.5\<close> and \<^verbatim>\<open>2001:db8:1::5\<close>, whose IPv6 route goes out
  from another address.
\<close>

definition scenario_listing :: "iface list" where
  "scenario_listing =
     [\<lparr>addr_info = None\<rparr>,
      \<lparr>addr_info = Some
         [[''family'' \<mapsto> PStr ''inet'', ''local'' \<mapsto> PStr ''203.0.113.5''],
          [''family'' \<mapsto> PStr ''inet6'', ''local'' \<mapsto> PStr ''2001:db8:1::5'']]\<rparr>]"

definition scenario_out4 :: string where
  "scenario_out4 = ''192.0.2.0 via 203.0.113.1 dev eth0 src 203.0.113.5 uid 0'' @ [nl]"

definition scenario_out6 :: string where
  "scenario_out6 = ''2001:db8:: via fe80::1 dev eth0 src 2001:db8:2::7 metric 100'' @ [nl]"

definition scenario_command :: "string list \<Rightarrow> exn + string" where
  "scenario_command args =
     (if args = [''ip'', ''--json'', ''address'', ''show'', ''scope'', ''global''] then Inr ''[]''
      else if args = [''ip'', ''route'', ''get'', ''192.0.2.0''] then Inr scenario_out4
      else if args = [''ip'', ''route'', ''get'', ''2001:db8::''] then Inr scenario_out6
      else Inl CalledProcessError)"

section \<open>Speed-test results and their payload\<close>

text \<open>
  The values of a payload. A Python \<^verbatim>\<open>float\<close> is a value of the type \<open>'f\<close>, of which
  nothing is assumed: the arithmetic on floats is the parameter \<open>truediv\<close> below.
\<close>

datatype 'f pyobj = PyInt int | PyFloat 'f | PyStr string

text \<open>\<^verbatim>\<open>_SpeedTestResult\<close>; \<open>'dt\<close> is the type of \<^verbatim>\<open>datetime\<close> values.\<close>

record ('f, 'dt) speed_test_result =
  timestamp :: 'dt
  latency_ms :: "'f pyobj"
  jitter_ms :: "'f pyobj"
  download_bytesps :: int
  upload_bytesps :: int
  packet_loss :: "'f pyobj option"

text \<open>A value of the configuration file, and one entry of its list of channels.\<close>

datatype tomlval = TStr string | TInt int

type_synonym channel = "string \<rightharpoonup> tomlval"

text \<open>
  What the program calls and does not define:
  \<^item> \<open>truediv a b\<close> is \<^verbatim>\<open>a / b\<close>;
  \<^item> \<open>astimezone t s\<close> is \<^verbatim>\<open>t.astimezone(timezone(timedelta(seconds=s)))\<close>;
  \<^item> \<open>strftime t f\<close> is \<^verbatim>\<open>t.strftime(f)\<close>;
  \<^item> \<open>send i k p\<close> is \<^verbatim>\<open>Ambient(i, k).send(p)\<close>, with the response as its value;
  \<^item> \<open>raise_for_status r\<close> is \<^verbatim>\<open>r.raise_for_status()\<close>: the exception it raises, if any.
\<close>

record ('f, 'dt, 'resp) library =
  truediv :: "'f pyobj \<Rightarrow> 'f pyobj \<Rightarrow> exn + 'f"
  astimezone :: "'dt \<Rightarrow> int \<Rightarrow> exn + 'dt"
  strftime :: "'dt \<Rightarrow> string \<Rightarrow> exn + string"
  send :: "tomlval \<Rightarrow> tomlval \<Rightarrow> (string \<rightharpoonup> 'f pyobj) \<Rightarrow> exn + 'resp"
  raise_for_status :: "'resp \<Rightarrow> exn option"

text \<open>\<^verbatim>\<open>_TIMEZONE_OFFSET = timedelta(hours=9)\<close>, in seconds.\<close>

definition TIMEZONE_OFFSET :: int where
  "TIMEZONE_OFFSET = 9 * 60 * 60"

text \<open>The decimal digits of a natural number, as \<^verbatim>\<open>{i}\<close> in an f-string writes them.\<close>

function str_nat :: "nat \<Rightarrow> string" where
  "str_nat n =
     (if n < 10 then [''0123456789'' ! n]
      else str_nat (n div 10) @ [''0123456789'' ! (n mod 10)])"
  by pat_completeness auto
termination
  by (relation "measure (\<lambda>n. n)") auto

text \<open>\<^verbatim>\<open>bytesps * 8 / 1000 / 1000\<close>: two divisions, from the left.\<close>

definition mbps :: "('f pyobj \<Rightarrow> 'f pyobj \<Rightarrow> exn + 'f) \<Rightarrow> int \<Rightarrow> exn + 'f" where
  "mbps tdiv bytesps =
     (case tdiv (PyInt (bytesps * 8)) (PyInt 1000) of
        Inl e \<Rightarrow> Inl e
      | Inr x \<Rightarrow> tdiv (PyFloat x) (PyInt 1000))"

text \<open>
  \<^verbatim>\<open>_to_ambient_data\<close>, a generator: the values it yields and the exception that ends
  it, if any.
\<close>

definition to_ambient_data ::
  "('f, 'dt, 'resp) library \<Rightarrow> ('f, 'dt) speed_test_result \<Rightarrow> 'f pyobj list \<times> exn option" where
  "to_ambient_data lib r =
     (case mbps (truediv lib) (download_bytesps r) of
        Inl e \<Rightarrow> ([latency_ms r, jitter_ms r], Some e)
      | Inr dl \<Rightarrow>
          (case mbps (truediv lib) (upload_bytesps r) of
             Inl e \<Rightarrow> ([latency_ms r, jitter_ms r, PyFloat dl], Some e)
           | Inr ul \<Rightarrow>
               ([latency_ms r, jitter_ms r, PyFloat dl, PyFloat ul]
                @ (case packet_loss r of None \<Rightarrow> [] | Some p \<Rightarrow> [p]), None)))"

text \<open>
  \<^verbatim>\<open>to_ambient\<close>: the timestamp is rendered first; then \<^verbatim>\<open>dict\<close> takes the pairs
  \<^verbatim>\<open>(f"d{i}", d)\<close> of \<^verbatim>\<open>enumerate(..., 1)\<close> in their order and the keyword \<^verbatim>\<open>created\<close>
  last.
\<close>

definition to_ambient ::
  "('f, 'dt, 'resp) library \<Rightarrow> ('f, 'dt) speed_test_result \<Rightarrow> exn + (string \<rightharpoonup> 'f pyobj)" where
  "to_ambient lib r =
     (case astimezone lib (timestamp r) TIMEZONE_OFFSET of
        Inl e \<Rightarrow> Inl e
      | Inr timestamp_timezone \<Rightarrow>
          (case strftime lib timestamp_timezone ''%Y-%m-%d %H:%M:%S'' of
             Inl e \<Rightarrow> Inl e
           | Inr created \<Rightarrow>
               (case to_ambient_data lib r of
                  (data, Some e) \<Rightarrow> Inl e
                | (data, None) \<Rightarrow>
                    Inr ((fold (\<lambda>(i, d) m. m(''d'' @ str_nat i \<mapsto> d)) (List.enumerate 1 data) Map.empty)
                         (''created'' \<mapsto> PyStr created)))))"

section \<open>Reporting\<close>

text \<open>One call of \<^verbatim>\<open>send\<close>: the channel it went to and the payload.\<close>

record 'f upload =
  channel_id :: tomlval
  write_key :: tomlval
  payload :: "string \<rightharpoonup> 'f pyobj"

text \<open>What \<^verbatim>\<open>_ambient\<close> did: the uploads, in order, and the exception that ended it.\<close>

record 'f report =
  uploads :: "'f upload list"
  failure :: "exn option"

text \<open>
  The loop of \<^verbatim>\<open>_ambient\<close> over the results, with the channels that \<^verbatim>\<open>config_it\<close>
  has not given out yet. \<^verbatim>\<open>next\<close> on the exhausted iterator raises
  \<^verbatim>\<open>StopIteration\<close>; a missing \<^verbatim>\<open>id\<close> or \<^verbatim>\<open>write_key\<close> raises \<^verbatim>\<open>KeyError\<close>.
\<close>

fun ambient_loop ::
  "('f, 'dt, 'resp) library \<Rightarrow> channel list \<Rightarrow> ('f, 'dt) speed_test_result list \<Rightarrow>
   'f upload list \<times> exn option" where
  "ambient_loop lib config_it [] = ([], None)"
| "ambient_loop lib [] (result # results) = ([], Some StopIteration)"
| "ambient_loop lib (config_am # config_it) (result # results) =
     (case config_am ''id'' of
        None \<Rightarrow> ([], Some KeyError)
      | Some i \<Rightarrow>
          (case config_am ''write_key'' of
             None \<Rightarrow> ([], Some KeyError)
           | Some k \<Rightarrow>
               (case to_ambient lib result of
                  Inl e \<Rightarrow> ([], Some e)
                | Inr p \<Rightarrow>
                    (let u = \<lparr>channel_id = i, write_key = k, payload = p\<rparr>
                     in case send lib i k p of
                          Inl e \<Rightarrow> ([u], Some e)
                        | Inr response \<Rightarrow>
                            (case raise_for_status lib response of
                               Some e \<Rightarrow> ([u], Some e)
                             | None \<Rightarrow>
                                 (let (us, f) = ambient_loop lib config_it results
                                  in (u # us, f)))))))"

text \<open>
  \<^verbatim>\<open>_ambient\<close>. \<open>channels\<close> is \<^verbatim>\<open>config["ambient"]["channels"]\<close>, \<open>None\<close> when a
  key is missing. The results are an iterator: the results it gives and the
  exception that ends it, if any, which the loop meets after the last result.
\<close>

definition ambient ::
  "('f, 'dt, 'resp) library \<Rightarrow> channel list option \<Rightarrow>
   ('f, 'dt) speed_test_result list \<times> exn option \<Rightarrow> 'f report" where
  "ambient lib channels results =
     (case channels of
        None \<Rightarrow> \<lparr>uploads = [], failure = Some KeyError\<rparr>
      | Some config_it \<Rightarrow>
          (let (us, f) = ambient_loop lib config_it (fst results)
           in \<lparr>uploads = us,
               failure = (case f of Some e \<Rightarrow> Some e | None \<Rightarrow> snd results)\<rparr>))"

text \<open>
  \<^verbatim>\<open>_speed_test\<close>: \<open>read_result\<close> stands for \<^verbatim>\<open>json.loads\<close> and the reading of the fields.
  An address that is \<^verbatim>\<open>None\<close> is no argument of a command.
\<close>

definition speed_test ::
  "(string list \<Rightarrow> exn + string) \<Rightarrow> (string \<Rightarrow> exn + 'r) \<Rightarrow> pyval \<Rightarrow> exn + 'r" where
  "speed_test command read_result ip_address =
     (case ip_address of
        PNone \<Rightarrow> Inl (OtherError ''TypeError'')
      | PStr a \<Rightarrow>
          (case command [''speedtest'', ''--format'', ''json'', ''--ip'', a] of
             Inl e \<Rightarrow> Inl e
           | Inr out \<Rightarrow> read_result out))"

text \<open>
  \<^verbatim>\<open>map(f, it)\<close> run to its end: the values of \<open>f\<close> up to its first exception, then
  the exception of the iterator \<open>it\<close> itself.
\<close>

fun map_results :: "('a \<Rightarrow> exn + 'r) \<Rightarrow> 'a list \<Rightarrow> exn option \<Rightarrow> 'r list \<times> exn option" where
  "map_results f [] r = ([], r)"
| "map_results f (a # as) r =
     (case f a of
        Inl e \<Rightarrow> ([], Some e)
      | Inr x \<Rightarrow> (let (xs, r') = map_results f as r in (x # xs, r')))"

text \<open>
  \<^verbatim>\<open>run\<close>. \<open>config\<close> is what opening and loading the configuration file gives: an
  exception, or the list of channels of the configuration.
\<close>

definition run ::
  "('f, 'dt, 'resp) library \<Rightarrow> exn + channel list option \<Rightarrow>
   (string \<Rightarrow> string \<Rightarrow> exn + bool) \<Rightarrow> (string list \<Rightarrow> exn + string) \<Rightarrow>
   (string \<Rightarrow> exn + iface list) \<Rightarrow> (string \<Rightarrow> exn + ('f, 'dt) speed_test_result) \<Rightarrow> 'f report" where
  "run lib config search command loads read_result =
     (case config of
        Inl e \<Rightarrow> \<lparr>uploads = [], failure = Some e\<rparr>
      | Inr channels \<Rightarrow>
          (case get_ip_addresses search command loads of
             Inl e \<Rightarrow> \<lparr>uploads = [], failure = Some e\<rparr>
           | Inr ip_addresses \<Rightarrow>
               ambient lib channels
                 (map_results (speed_test command read_result) (yields ip_addresses)
                    (raised ip_addresses))))"

text \<open>
  One step of the loop goes through: the channel has its two keys, the payload is
  built, and the upload is sent and answered without an exception.
\<close>

definition upload_ok ::
  "('f, 'dt, 'resp) library \<Rightarrow> channel \<Rightarrow> ('f, 'dt) speed_test_result \<Rightarrow> bool" where
  "upload_ok lib c r =
     (case (c ''id'', c ''write_key'', to_ambient lib r) of
        (Some i, Some k, Inr p) \<Rightarrow>
          (case send lib i k p of
             Inl e \<Rightarrow> False
           | Inr response \<Rightarrow> raise_for_status lib response = None)
      | _ \<Rightarrow> False)"

text \<open>The upload of a result to a channel, when the step goes through.\<close>

definition upload_of ::
  "('f, 'dt, 'resp) library \<Rightarrow> channel \<Rightarrow> ('f, 'dt) speed_test_result \<Rightarrow> 'f upload" where
  "upload_of lib c r =
     \<lparr>channel_id = the (c ''id''), write_key = the (c ''write_key''),
      payload = (case to_ambient lib r of Inr p \<Rightarrow> p | Inl e \<Rightarrow> Map.empty)\<rparr>"

section \<open>An example of a library\<close>

text \<open>
  A stand-in for the library, for examples: a float is an exact fraction, kept as
  the pair of its numerator and denominator; a \<^verbatim>\<open>datetime\<close> is a number of seconds;
  every upload is answered with the status 200.
\<close>

definition example_library :: "(int \<times> int, int, nat) library" where
  "example_library =
     \<lparr>truediv = (\<lambda>a b. case (a, b) of
                   (PyInt x, PyInt y) \<Rightarrow> Inr (x, y)
                 | (PyFloat (n, d), PyInt y) \<Rightarrow> Inr (n, d * y)
                 | _ \<Rightarrow> Inl (OtherError ''TypeError'')),
      astimezone = (\<lambda>t offset. Inr (t + offset)),
      strftime = (\<lambda>t format. Inr ''2024-05-01 21:00:00''),
      send = (\<lambda>i k p. Inr 200),
      raise_for_status = (\<lambda>status. if 400 \<le> status then Some HTTPError else None)\<rparr>"

definition example_result :: "(int \<times> int, int) speed_test_result" where
  "example_result =
     \<lparr>timestamp = 1714564800, latency_ms = PyFloat (21, 2), jitter_ms = PyInt 1,
      download_bytesps = 11500000, upload_bytesps = 2500000, packet_loss = Some (PyInt 0)\<rparr>"

definition example_channel1 :: channel where
  "example_channel1 = [''id'' \<mapsto> TInt 101, ''write_key'' \<mapsto> TStr ''k101'']"

definition example_channel2 :: channel where
  "example_channel2 = [''id'' \<mapsto> TInt 102, ''write_key'' \<mapsto> TStr ''k102'']"

text \<open>
  A listing with the two addresses of the host of the route lookups above, and a
  command that answers the listing and the two route lookups.
\<close>

definition example_listing :: "iface list" where
  "example_listing =
     [\<lparr>addr_info = Some
         [[''family'' \<mapsto> PStr ''inet'', ''local'' \<mapsto> PStr ''10.0.0.5''],
          [''family'' \<mapsto> PStr ''inet6'', ''local'' \<mapsto> PStr ''2001:db8:1::5'']]\<rparr>]"

definition example_run_command :: "string list \<Rightarrow> exn + string" where
  "example_run_command args =
     (if args = [''ip'', ''--json'', ''address'', ''show'', ''scope'', ''global''] then Inr ''[]''
      else example_command args)"

section \<open>Facts about the regular expressions\<close>

lemma parse_plain:
  "list_all plain s \<Longrightarrow>
   parse Normal (s @ rest) =
     (case parse Normal rest of None \<Rightarrow> None | Some as \<Rightarrow> Some (map atom_of s @ as))"
  by (induction s) (auto simp: plain_def atom_of_def split: option.splits)

lemma parse_sieve_pattern:
  assumes "list_all plain s"
  shows "parse Normal (sieve_pattern (PStr s)) = Some (Boundary # map atom_of s @ [Boundary])"
proof -
  define closing where
    "closing = nl # ''                '' @ [backslash, CHR ''b''] @ nl # ''            ''"
  have closing_part: "parse Normal closing = Some [Boundary]"
    by (simp add: closing_def nl_def backslash_def is_space_def is_meta_def)
  have opening_part: "parse Normal (nl # ''                '' @ [backslash, CHR ''b'']
                   @ nl # ''                '' @ rest)
                 = map_option (Cons Boundary) (parse Normal rest)" for rest
    by (simp add: nl_def backslash_def is_space_def is_meta_def)
  have "sieve_pattern (PStr s) =
          nl # ''                '' @ [backslash, CHR ''b'']
          @ nl # ''                '' @ (s @ closing)"
    by (simp add: sieve_pattern_def closing_def)
  then have "parse Normal (sieve_pattern (PStr s)) =
               map_option (Cons Boundary) (parse Normal (s @ closing))"
    by (simp only: opening_part)
  then show ?thesis
    by (simp add: parse_plain[OF assms] closing_part)
qed

lemma re_search_plain:
  "list_all plain s \<Longrightarrow>
   re_search (sieve_pattern (PStr s)) t =
     Inr (search_from (Boundary # map atom_of s @ [Boundary]) None t)"
  by (simp add: re_search_def parse_sieve_pattern)

lemma last_opt_Cons: "last_opt prev (c # pre) = last_opt (Some c) pre"
  by (simp add: last_opt_def)

lemma search_from_iff:
  "search_from as prev t \<longleftrightarrow>
     (\<exists>pre post. t = pre @ post \<and> match_here as (last_opt prev pre) post)"
proof (induction t arbitrary: prev)
  case Nil
  then show ?case by (simp add: last_opt_def)
next
  case (Cons c cs)
  show ?case
  proof
    assume "search_from as prev (c # cs)"
    then consider "match_here as prev (c # cs)" | "search_from as (Some c) cs" by auto
    then show "\<exists>pre post. c # cs = pre @ post \<and> match_here as (last_opt prev pre) post"
    proof cases
      case 1
      then have "c # cs = [] @ (c # cs) \<and> match_here as (last_opt prev []) (c # cs)"
        by (simp add: last_opt_def)
      then show ?thesis by blast
    next
      case 2
      then obtain pre post where p: "cs = pre @ post" "match_here as (last_opt (Some c) pre) post"
        using Cons.IH by blast
      then have "c # cs = (c # pre) @ post \<and> match_here as (last_opt prev (c # pre)) post"
        by (simp add: last_opt_Cons)
      then show ?thesis by blast
    qed
  next
    assume "\<exists>pre post. c # cs = pre @ post \<and> match_here as (last_opt prev pre) post"
    then obtain pre post where p: "c # cs = pre @ post" "match_here as (last_opt prev pre) post"
      by blast
    show "search_from as prev (c # cs)"
    proof (cases pre)
      case Nil
      with p have "match_here as prev (c # cs)" by (simp add: last_opt_def)
      then show ?thesis by simp
    next
      case (Cons d ds)
      with p have "cs = ds @ post" "match_here as (last_opt (Some c) ds) post"
        by (auto simp: last_opt_Cons)
      then have "search_from as (Some c) cs" using Cons.IH by blast
      then show ?thesis by simp
    qed
  qed
qed

lemma match_here_Lit:
  "match_here (Lit x # as) prev t \<longleftrightarrow> (\<exists>cs. t = x # cs \<and> match_here as (Some x) cs)"
  by (cases t) auto

lemma match_here_AnyChar:
  "match_here (AnyChar # as) prev t \<longleftrightarrow> (\<exists>c cs. t = c # cs \<and> c \<noteq> nl \<and> match_here as (Some c) cs)"
  by (cases t) auto

lemma match_here_lits:
  "match_here (map Lit s @ rest) prev t \<longleftrightarrow>
     (\<exists>post. t = s @ post \<and> match_here rest (last_opt prev s) post)"
proof (induction s arbitrary: prev t)
  case Nil
  then show ?case by (simp add: last_opt_def)
next
  case (Cons x xs)
  show ?case
    by (cases t) (auto simp: Cons.IH last_opt_def)
qed

lemma literal_word_match_iff:
  "literal_word_match a t \<longleftrightarrow>
     (\<exists>pre post. t = pre @ a @ post
        \<and> at_boundary (last_opt None pre) (a @ post)
        \<and> at_boundary (last_opt (last_opt None pre) a) post)"
  unfolding literal_word_match_def search_from_iff
  by (simp add: match_here_lits) blast

lemma match_here_wild:
  "match_here (map Lit s @ rest) prev t \<Longrightarrow> match_here (map atom_of s @ rest) prev t"
proof (induction s arbitrary: prev t)
  case Nil
  then show ?case by simp
next
  case (Cons x xs)
  then show ?case
    by (cases t) (auto simp: atom_of_def nl_def)
qed

lemma search_from_mono:
  "(\<And>prev t. match_here as prev t \<Longrightarrow> match_here bs prev t) \<Longrightarrow>
   search_from as prev t \<Longrightarrow> search_from bs prev t"
  by (induction t arbitrary: prev) auto

lemma literal_imp_search:
  "literal_word_match a t \<Longrightarrow> search_from (Boundary # map atom_of a @ [Boundary]) None t"
  unfolding literal_word_match_def
  by (erule search_from_mono[rotated]) (auto dest: match_here_wild)

lemma atom_of_no_dot: "CHR ''.'' \<notin> set s \<Longrightarrow> map atom_of s = map Lit s"
  by (induction s) (auto simp: atom_of_def)

lemma literal_word_match_sublist: "literal_word_match a t \<Longrightarrow> sublist a t"
  by (auto simp: literal_word_match_iff sublist_def)

section \<open>The loop of the sieve\<close>

lemma sieve_loop_subseq: "sieve_loop search out as = (ys, r) \<Longrightarrow> subseq ys as"
  by (induction as arbitrary: ys r) (auto split: sum.splits prod.splits if_splits)

lemma sieve_loop_found:
  "sieve_loop search out as = (ys, r) \<Longrightarrow> a \<in> set ys \<Longrightarrow> search (sieve_pattern a) out = Inr True"
  by (induction as arbitrary: ys r) (auto split: sum.splits prod.splits if_splits)

lemma sieve_loop_returned:
  "sieve_loop search out as = (ys, None) \<Longrightarrow>
   ys = filter (\<lambda>a. search (sieve_pattern a) out = Inr True) as"
  by (induction as arbitrary: ys) (auto split: sum.splits prod.splits if_splits)

lemma sieve_loop_total:
  "\<forall>a\<in>set as. \<exists>b. search (sieve_pattern a) out = Inr b \<Longrightarrow>
   sieve_loop search out as = (filter (\<lambda>a. search (sieve_pattern a) out = Inr True) as, None)"
  by (induction as) (auto split: sum.splits prod.splits if_splits)

lemma family_calls:
  "calls (sieve_addresses_family search command addresses v4) =
     (if addresses = [] then [] else [route_args v4])"
  by (auto simp: sieve_addresses_family_def split: sum.splits prod.splits)

lemma family_returned:
  "raised (sieve_addresses_family search command addresses v4) = None \<Longrightarrow>
   command (route_args v4) = Inr out \<Longrightarrow>
   yields (sieve_addresses_family search command addresses v4) =
     filter (\<lambda>a. search (sieve_pattern a) out = Inr True) addresses"
  by (auto simp: sieve_addresses_family_def split: sum.splits prod.splits dest: sieve_loop_returned)

lemma family_total:
  "command (route_args v4) = Inr out \<Longrightarrow>
   \<forall>a\<in>set addresses. \<exists>b. search (sieve_pattern a) out = Inr b \<Longrightarrow>
   sieve_addresses_family search command addresses v4 =
     \<lparr>yields = filter (\<lambda>a. search (sieve_pattern a) out = Inr True) addresses,
      raised = None, calls = (if addresses = [] then [] else [route_args v4])\<rparr>"
  by (simp add: sieve_addresses_family_def sieve_loop_total)

lemma sieve_raised_None:
  "raised (sieve_addresses search command v4s v6s) = None \<longleftrightarrow>
     raised (sieve_addresses_family search command v4s True) = None \<and>
     raised (sieve_addresses_family search command v6s False) = None"
  by (auto simp: sieve_addresses_def Let_def split: option.splits)

section \<open>The sieve keeps candidates, in their order\<close>

text \<open>
  C10. Whatever \<^verbatim>\<open>re.search\<close> and the route lookup do, the addresses that the sieve
  of one family yields are a subsequence of its candidate list: each one is a
  candidate, they come in the order of the candidates, and none comes more often
  than it stands in the list.
\<close>

theorem sieve_family_subseq:
  "subseq (yields (sieve_addresses_family search command addresses v4)) addresses"
  by (auto simp: sieve_addresses_family_def split: sum.splits prod.splits dest: sieve_loop_subseq)

text \<open>
  C3. When the merged generator runs to its end without an exception, it yields the
  IPv4 candidates that the search finds in the IPv4 route text, in their order,
  and after them the IPv6 candidates that it finds in the IPv6 route text, in their
  order.
\<close>

theorem sieve_v4_before_v6:
  assumes "raised (sieve_addresses search command v4s v6s) = None"
    and "command (route_args True) = Inr out4"
    and "command (route_args False) = Inr out6"
  shows "yields (sieve_addresses search command v4s v6s) =
           filter (\<lambda>a. search (sieve_pattern a) out4 = Inr True) v4s
           @ filter (\<lambda>a. search (sieve_pattern a) out6 = Inr True) v6s"
proof -
  from assms(1) have r4: "raised (sieve_addresses_family search command v4s True) = None"
    and r6: "raised (sieve_addresses_family search command v6s False) = None"
    by (simp_all add: sieve_raised_None)
  have "yields (sieve_addresses search command v4s v6s) =
          yields (sieve_addresses_family search command v4s True)
          @ yields (sieve_addresses_family search command v6s False)"
    using r4 by (simp add: sieve_addresses_def Let_def)
  then show ?thesis
    by (simp add: family_returned[OF r4 assms(2)] family_returned[OF r6 assms(3)])
qed

lemma example_command_v4: "example_command (route_args True) = Inr example_out4"
  by (simp add: example_command_def route_args_def GLOBAL_V4_ADDRESS_def)

lemma example_command_v6: "example_command (route_args False) = Inr example_out6"
  by (simp add: example_command_def route_args_def GLOBAL_V6_ADDRESS_def)

theorem sieve_v4_before_v6_witness:
  "raised (sieve_addresses re_search example_command
       [PStr ''10.0.0.6'', PStr ''10.0.0.5''] [PStr ''2001:db8:1::5'']) = None
   \<and> yields (sieve_addresses re_search example_command
       [PStr ''10.0.0.6'', PStr ''10.0.0.5''] [PStr ''2001:db8:1::5'']) =
     filter (\<lambda>a. re_search (sieve_pattern a) example_out4 = Inr True)
       [PStr ''10.0.0.6'', PStr ''10.0.0.5'']
     @ filter (\<lambda>a. re_search (sieve_pattern a) example_out6 = Inr True) [PStr ''2001:db8:1::5'']"
proof -
  have r: "raised (sieve_addresses re_search example_command
       [PStr ''10.0.0.6'', PStr ''10.0.0.5''] [PStr ''2001:db8:1::5'']) = None"
    by code_simp
  show ?thesis
    by (rule conjI[OF r sieve_v4_before_v6[OF r example_command_v4 example_command_v6]])
qed

text \<open>
  C4. The sieve of one family runs no command for an empty candidate list and
  exactly one, the route lookup of the family, for a non-empty one. With both lists
  empty the merged sieve runs no command and yields nothing. The merged sieve runs
  the lookup of each non-empty family once; the IPv6 lookup is not reached when the
  IPv4 part ended with an exception.
\<close>

theorem sieve_route_lookups:
  "calls (sieve_addresses_family search command addresses v4) =
     (if addresses = [] then [] else [route_args v4])
   \<and> sieve_addresses search command [] [] = \<lparr>yields = [], raised = None, calls = []\<rparr>
   \<and> calls (sieve_addresses search command v4s v6s) =
       (if v4s = [] then [] else [route_args True])
       @ (if v6s = [] \<or> raised (sieve_addresses_family search command v4s True) \<noteq> None
          then [] else [route_args False])"
  by (auto simp: sieve_addresses_def Let_def family_calls split: option.splits)
     (auto simp: sieve_addresses_family_def)

section \<open>The family splitter\<close>

lemma separate_loop_eq:
  "separate_loop v4 v6 ds =
     (v4 @ map (\<lambda>d. dict_get d ''local'') (filter (\<lambda>d. dict_get d ''family'' = PStr ''inet'') ds),
      v6 @ map (\<lambda>d. dict_get d ''local'') (filter (\<lambda>d. dict_get d ''family'' = PStr ''inet6'') ds))"
  by (induction ds arbitrary: v4 v6) (auto simp: Let_def)

lemma separate_family_eq:
  "separate_family ds =
     (map (\<lambda>d. dict_get d ''local'') (filter (\<lambda>d. dict_get d ''family'' = PStr ''inet'') ds),
      map (\<lambda>d. dict_get d ''local'') (filter (\<lambda>d. dict_get d ''family'' = PStr ''inet6'') ds))"
  by (simp add: separate_family_def separate_loop_eq)

lemma local_strings_eq:
  "\<forall>d\<in>set ds. dict_get d ''family'' = PStr fam \<longrightarrow> (\<exists>s. dict_get d ''local'' = PStr s) \<Longrightarrow>
   map (\<lambda>d. dict_get d ''local'') (filter (\<lambda>d. dict_get d ''family'' = PStr fam) ds)
     = map PStr (local_strings fam ds)"
  by (induction ds) auto

text \<open>
  C2, as the claim states it, fails: an entry of family \<^verbatim>\<open>inet6\<close> whose \<^verbatim>\<open>local\<close> is
  the empty string puts the empty string into the IPv6 output, and an entry of
  family \<^verbatim>\<open>inet\<close> with no \<^verbatim>\<open>local\<close> puts \<^verbatim>\<open>None\<close> into the IPv4 output.
\<close>

theorem separate_family_empty_local:
  "separate_family [[''family'' \<mapsto> PStr ''inet6'', ''local'' \<mapsto> PStr []]] = ([], [PStr []])
   \<and> separate_family [[''family'' \<mapsto> PStr ''inet'']] = ([PNone], [])"
  by (simp add: separate_family_def dict_get_def)

text \<open>
  C2, amended. An entry whose family is neither \<^verbatim>\<open>inet\<close> nor \<^verbatim>\<open>inet6\<close> adds nothing
  to either output, whatever its \<^verbatim>\<open>local\<close>: the outputs are those of the sequence
  without it. An entry of family \<^verbatim>\<open>inet\<close> (\<^verbatim>\<open>inet6\<close>) whose \<^verbatim>\<open>local\<close> is a string adds
  exactly that string, at its place, to the IPv4 (IPv6) output, also when the
  string is empty.
\<close>

theorem separate_family_entry:
  "(dict_get d ''family'' \<noteq> PStr ''inet'' \<and> dict_get d ''family'' \<noteq> PStr ''inet6''
      \<longrightarrow> separate_family (xs @ d # ys) = separate_family (xs @ ys))
   \<and> (dict_get d4 ''family'' = PStr ''inet'' \<and> dict_get d4 ''local'' = PStr s4
      \<longrightarrow> separate_family (xs @ d4 # ys) =
            (fst (separate_family xs) @ PStr s4 # fst (separate_family ys),
             snd (separate_family (xs @ ys))))
   \<and> (dict_get d6 ''family'' = PStr ''inet6'' \<and> dict_get d6 ''local'' = PStr s6
      \<longrightarrow> separate_family (xs @ d6 # ys) =
            (fst (separate_family (xs @ ys)),
             snd (separate_family xs) @ PStr s6 # snd (separate_family ys)))"
  by (auto simp: separate_family_eq)

theorem separate_family_entry_witness:
  "separate_family ([[''family'' \<mapsto> PStr ''inet'', ''local'' \<mapsto> PStr ''10.0.0.5'']]
       @ [''family'' \<mapsto> PStr ''mpls'', ''local'' \<mapsto> PStr ''16'']
       # [[''family'' \<mapsto> PStr ''inet6'', ''local'' \<mapsto> PStr ''2001:db8:1::5'']])
     = ([PStr ''10.0.0.5''], [PStr ''2001:db8:1::5''])
   \<and> separate_family ([[''family'' \<mapsto> PStr ''inet'', ''local'' \<mapsto> PStr ''10.0.0.5'']]
       @ [''family'' \<mapsto> PStr ''inet'', ''local'' \<mapsto> PStr []]
       # [[''family'' \<mapsto> PStr ''inet6'', ''local'' \<mapsto> PStr ''2001:db8:1::5'']])
     = ([PStr ''10.0.0.5'', PStr []], [PStr ''2001:db8:1::5''])
   \<and> separate_family ([[''family'' \<mapsto> PStr ''inet'', ''local'' \<mapsto> PStr ''10.0.0.5'']]
       @ [''family'' \<mapsto> PStr ''inet6'', ''local'' \<mapsto> PStr []]
       # [[''family'' \<mapsto> PStr ''inet6'', ''local'' \<mapsto> PStr ''2001:db8:1::5'']])
     = ([PStr ''10.0.0.5''], [PStr [], PStr ''2001:db8:1::5''])"
  using separate_family_entry
    [of "[''family'' \<mapsto> PStr ''mpls'', ''local'' \<mapsto> PStr ''16'']"
        "[[''family'' \<mapsto> PStr ''inet'', ''local'' \<mapsto> PStr ''10.0.0.5'']]"
        "[[''family'' \<mapsto> PStr ''inet6'', ''local'' \<mapsto> PStr ''2001:db8:1::5'']]"
        "[''family'' \<mapsto> PStr ''inet'', ''local'' \<mapsto> PStr []]" "[]"
        "[''family'' \<mapsto> PStr ''inet6'', ''local'' \<mapsto> PStr []]" "[]"]
  by (simp add: dict_get_def separate_family_def)

text \<open>
  C5, as the claim states it, fails: of two entries of family \<^verbatim>\<open>inet\<close>, the first
  with an empty \<^verbatim>\<open>local\<close>, the IPv4 output holds both addresses, not only the
  non-empty one.
\<close>

theorem separate_family_keeps_empty_local:
  "fst (separate_family
      [[''family'' \<mapsto> PStr ''inet'', ''local'' \<mapsto> PStr []],
       [''family'' \<mapsto> PStr ''inet'', ''local'' \<mapsto> PStr ''10.0.0.5'']])
   \<noteq> map PStr (filter (\<lambda>s. s \<noteq> [])
        (local_strings ''inet''
          [[''family'' \<mapsto> PStr ''inet'', ''local'' \<mapsto> PStr []],
           [''family'' \<mapsto> PStr ''inet'', ''local'' \<mapsto> PStr ''10.0.0.5'']]))"
  by (simp add: separate_family_def dict_get_def)

text \<open>
  C5, amended. When every entry of family \<^verbatim>\<open>inet\<close> or \<^verbatim>\<open>inet6\<close> has a string in its
  field \<^verbatim>\<open>local\<close> (empty or not), the IPv4 output is exactly the \<^verbatim>\<open>local\<close> strings of
  the entries of family \<^verbatim>\<open>inet\<close>, in their order and as often as they occur, and the
  IPv6 output is the same for \<^verbatim>\<open>inet6\<close>.
\<close>

theorem separate_family_local_strings:
  assumes "\<forall>d\<in>set ds. dict_get d ''family'' = PStr ''inet'' \<or> dict_get d ''family'' = PStr ''inet6''
             \<longrightarrow> (\<exists>s. dict_get d ''local'' = PStr s)"
  shows "separate_family ds =
           (map PStr (local_strings ''inet'' ds), map PStr (local_strings ''inet6'' ds))"
proof -
  have "\<forall>d\<in>set ds. dict_get d ''family'' = PStr ''inet'' \<longrightarrow> (\<exists>s. dict_get d ''local'' = PStr s)"
    and "\<forall>d\<in>set ds. dict_get d ''family'' = PStr ''inet6'' \<longrightarrow> (\<exists>s. dict_get d ''local'' = PStr s)"
    using assms by blast+
  then show ?thesis
    by (simp add: separate_family_eq local_strings_eq)
qed

theorem separate_family_local_strings_witness:
  "separate_family
      [[''family'' \<mapsto> PStr ''inet6'', ''local'' \<mapsto> PStr ''2001:db8:1::5''],
       [''family'' \<mapsto> PStr ''inet'', ''local'' \<mapsto> PStr ''10.0.0.5''],
       [''family'' \<mapsto> PStr ''mpls'', ''local'' \<mapsto> PStr ''7''],
       [''family'' \<mapsto> PStr ''inet'', ''local'' \<mapsto> PStr []],
       [''local'' \<mapsto> PStr ''10.0.0.9''],
       [''family'' \<mapsto> PStr ''inet'', ''local'' \<mapsto> PStr ''10.0.0.5'']]
   = ([PStr ''10.0.0.5'', PStr [], PStr ''10.0.0.5''], [PStr ''2001:db8:1::5''])"
  using separate_family_local_strings
    [of "[[''family'' \<mapsto> PStr ''inet6'', ''local'' \<mapsto> PStr ''2001:db8:1::5''],
       [''family'' \<mapsto> PStr ''inet'', ''local'' \<mapsto> PStr ''10.0.0.5''],
       [''family'' \<mapsto> PStr ''mpls'', ''local'' \<mapsto> PStr ''7''],
       [''family'' \<mapsto> PStr ''inet'', ''local'' \<mapsto> PStr []],
       [''local'' \<mapsto> PStr ''10.0.0.9''],
       [''family'' \<mapsto> PStr ''inet'', ''local'' \<mapsto> PStr ''10.0.0.5'']]"]
  by (simp add: dict_get_def)

section \<open>The discovery pipeline\<close>

lemma plain_scenario: "list_all plain ''203.0.113.5''" "list_all plain ''2001:db8:1::5''"
  by (simp_all add: plain_def is_space_def is_meta_def nl_def backslash_def)

lemma re_search_scenario_v4:
  "literal_word_match ''203.0.113.5'' out4 \<Longrightarrow>
   re_search (sieve_pattern (PStr ''203.0.113.5'')) out4 = Inr True"
  by (simp only: re_search_plain[OF plain_scenario(1)] literal_imp_search)

lemma re_search_scenario_v6:
  "re_search (sieve_pattern (PStr ''2001:db8:1::5'')) out6 =
     Inr (literal_word_match ''2001:db8:1::5'' out6)"
proof -
  have "map atom_of ''2001:db8:1::5'' = map Lit ''2001:db8:1::5''"
    by (rule atom_of_no_dot) simp
  then show ?thesis
    by (simp only: re_search_plain[OF plain_scenario(2)] literal_word_match_def)
qed

text \<open>
  C9. The interface listing flattens to an entry of family \<^verbatim>\<open>inet\<close> with the address
  \<^verbatim>\<open>203.0.113.5\<close> and an entry of family \<^verbatim>\<open>inet6\<close> with \<^verbatim>\<open>2001:db8:1::5\<close>; the IPv4 route
  text holds \<^verbatim>\<open>203.0.113.5\<close> as a word and the IPv6 route text does not hold
  \<^verbatim>\<open>2001:db8:1::5\<close> as a word (so also when it does not hold it at all). Then the
  discovery returns a generator that yields \<^verbatim>\<open>203.0.113.5\<close> and nothing else, and ends
  without an exception, after the listing and one route lookup per family.
\<close>

theorem get_ip_addresses_scenario:
  assumes listing: "command address_args = Inr listing" "loads listing = Inr ifs"
    and entries: "concat (map aigetter ifs) = [e4, e6]"
      "dict_get e4 ''family'' = PStr ''inet''" "dict_get e4 ''local'' = PStr ''203.0.113.5''"
      "dict_get e6 ''family'' = PStr ''inet6''" "dict_get e6 ''local'' = PStr ''2001:db8:1::5''"
    and v4: "command (route_args True) = Inr out4" "literal_word_match ''203.0.113.5'' out4"
    and v6: "command (route_args False) = Inr out6" "\<not> literal_word_match ''2001:db8:1::5'' out6"
  shows "get_ip_addresses re_search command loads =
           Inr \<lparr>yields = [PStr ''203.0.113.5''], raised = None,
                calls = [address_args, route_args True, route_args False]\<rparr>"
proof -
  have sep: "separate_family [e4, e6] = ([PStr ''203.0.113.5''], [PStr ''2001:db8:1::5''])"
    using entries by (simp add: separate_family_def)
  have g4: "sieve_addresses_family re_search command [PStr ''203.0.113.5''] True =
      \<lparr>yields = [PStr ''203.0.113.5''], raised = None, calls = [route_args True]\<rparr>"
    using v4 by (simp add: sieve_addresses_family_def re_search_scenario_v4)
  have g6: "sieve_addresses_family re_search command [PStr ''2001:db8:1::5''] False =
      \<lparr>yields = [], raised = None, calls = [route_args False]\<rparr>"
    using v6 by (simp add: sieve_addresses_family_def re_search_scenario_v6)
  have "sieve_addresses re_search command [PStr ''203.0.113.5''] [PStr ''2001:db8:1::5''] =
      \<lparr>yields = [PStr ''203.0.113.5''], raised = None, calls = [route_args True, route_args False]\<rparr>"
    by (simp add: sieve_addresses_def g4 g6)
  then show ?thesis
    using listing entries(1) by (simp add: get_ip_addresses_def sep)
qed

theorem get_ip_addresses_scenario_witness:
  "literal_word_match ''203.0.113.5'' scenario_out4
   \<and> \<not> sublist ''2001:db8:1::5'' scenario_out6
   \<and> get_ip_addresses re_search scenario_command (\<lambda>out. Inr scenario_listing) =
       Inr \<lparr>yields = [PStr ''203.0.113.5''], raised = None,
            calls = [address_args, route_args True, route_args False]\<rparr>"
proof -
  have c0: "scenario_command address_args = Inr ''[]''"
    by (simp add: scenario_command_def address_args_def)
  have c4: "scenario_command (route_args True) = Inr scenario_out4"
    by (simp add: scenario_command_def route_args_def GLOBAL_V4_ADDRESS_def)
  have c6: "scenario_command (route_args False) = Inr scenario_out6"
    by (simp add: scenario_command_def route_args_def GLOBAL_V6_ADDRESS_def)
  have flat: "concat (map aigetter scenario_listing) =
      [[''family'' \<mapsto> PStr ''inet'', ''local'' \<mapsto> PStr ''203.0.113.5''],
       [''family'' \<mapsto> PStr ''inet6'', ''local'' \<mapsto> PStr ''2001:db8:1::5'']]"
    by (simp add: scenario_listing_def aigetter_def)
  have m4: "literal_word_match ''203.0.113.5'' scenario_out4"
    by code_simp
  have m6: "\<not> literal_word_match ''2001:db8:1::5'' scenario_out6"
    by code_simp
  have s6: "\<not> sublist ''2001:db8:1::5'' scenario_out6"
    by code_simp
  have "get_ip_addresses re_search scenario_command (\<lambda>out. Inr scenario_listing) =
       Inr \<lparr>yields = [PStr ''203.0.113.5''], raised = None,
            calls = [address_args, route_args True, route_args False]\<rparr>"
    by (rule get_ip_addresses_scenario[OF c0 _ flat _ _ _ _ c4 m4 c6 m6])
       (simp_all add: dict_get_def)
  with m4 s6 show ?thesis by blast
qed

section \<open>The address is not escaped in the pattern\<close>

text \<open>
  C1, at an input where the code leaves the claim. The candidate is \<^verbatim>\<open>1.1.1.1\<close> and
  the route text names the source \<^verbatim>\<open>111.1.1.1\<close>, in which \<^verbatim>\<open>1.1.1.1\<close> does not stand as
  a word. The sieve yields the candidate all the same: each dot of the address is
  the dot of the regular expression and matches any character, here the seven
  characters \<^verbatim>\<open>111.1.1\<close>.
\<close>

theorem sieve_dot_matches_any_character:
  "yields (sieve_addresses_family re_search
       (\<lambda>args. Inr ''192.0.2.0 via 10.0.0.1 dev eth0 src 111.1.1.1 uid 0'')
       [PStr ''1.1.1.1''] True) = [PStr ''1.1.1.1'']
   \<and> \<not> literal_word_match ''1.1.1.1'' ''192.0.2.0 via 10.0.0.1 dev eth0 src 111.1.1.1 uid 0''"
  by code_simp

section \<open>A candidate that a shorter address is a prefix of\<close>

text \<open>
  C6, at an input where the code leaves the claim. The candidates are \<^verbatim>\<open>10.0.0.5\<close>
  and \<^verbatim>\<open>10.0.0.50\<close>, and the route text names the source \<^verbatim>\<open>10.0.0.5\<close> and the user
  \<^verbatim>\<open>100000050\<close>. In this text \<^verbatim>\<open>10.0.0.5\<close> stands as a word and \<^verbatim>\<open>10.0.0.50\<close> does not
  stand at all, not even as a part of a longer string. The sieve yields
  \<^verbatim>\<open>10.0.0.50\<close> all the same: each dot of the address is the dot of the regular
  expression and matches any character, here the nine characters \<^verbatim>\<open>100000050\<close>.
\<close>

theorem sieve_yields_longer_candidate:
  "literal_word_match ''10.0.0.5'' ''192.0.2.0 via 10.0.0.1 dev eth0 src 10.0.0.5 uid 100000050''
   \<and> \<not> sublist ''10.0.0.50'' ''192.0.2.0 via 10.0.0.1 dev eth0 src 10.0.0.5 uid 100000050''
   \<and> yields (sieve_addresses_family re_search
        (\<lambda>args. Inr ''192.0.2.0 via 10.0.0.1 dev eth0 src 10.0.0.5 uid 100000050'')
        [PStr ''10.0.0.5'', PStr ''10.0.0.50''] True)
      = [PStr ''10.0.0.5'', PStr ''10.0.0.50'']"
  by code_simp

section \<open>Facts about the reporting loop\<close>

lemma str_nat_digit: "n < 10 \<Longrightarrow> str_nat n = [''0123456789'' ! n]"
  by (subst str_nat.simps) simp

lemma key_simps:
  "''d'' @ str_nat (Suc 0) = ''d1''" "''d'' @ str_nat 2 = ''d2''" "''d'' @ str_nat 3 = ''d3''"
  "''d'' @ str_nat 4 = ''d4''" "''d'' @ str_nat 5 = ''d5''"
  by (simp_all add: str_nat_digit)

lemma mbps_Inr:
  "tdiv (PyInt (b * 8)) (PyInt 1000) = Inr x \<Longrightarrow> tdiv (PyFloat x) (PyInt 1000) = Inr y \<Longrightarrow>
   mbps tdiv b = Inr y"
  by (simp add: mbps_def)

lemma ambient_loop_channels:
  "ambient_loop lib chs rs = (us, f) \<Longrightarrow>
   length us \<le> length chs \<and> length us \<le> length rs \<and>
   map (\<lambda>u. (Some (channel_id u), Some (write_key u))) us =
     map (\<lambda>c. (c ''id'', c ''write_key'')) (take (length us) chs)"
  by (induction lib chs rs arbitrary: us f rule: ambient_loop.induct)
     (auto simp: Let_def split: option.splits sum.splits prod.splits)

lemma ambient_loop_exhausted:
  "length chs < length rs \<Longrightarrow> snd (ambient_loop lib chs rs) \<noteq> None"
  by (induction lib chs rs rule: ambient_loop.induct)
     (auto simp: Let_def split: option.splits sum.splits prod.splits)

lemma ambient_loop_ok:
  "\<forall>(c, r)\<in>set (zip chs rs). upload_ok lib c r \<Longrightarrow>
   ambient_loop lib chs rs =
     (map (\<lambda>(c, r). upload_of lib c r) (zip chs rs),
      if length chs < length rs then Some StopIteration else None)"
  by (induction lib chs rs rule: ambient_loop.induct)
     (auto simp: Let_def upload_ok_def upload_of_def split: option.splits sum.splits prod.splits)

lemma map_results_length:
  "map_results f as r = (xs, r') \<Longrightarrow>
   (length xs = length as \<and> r' = r) \<or> (length xs < length as \<and> r' \<noteq> None)"
  by (induction as arbitrary: xs r') (auto split: sum.splits prod.splits)

section \<open>More results than channels\<close>

text \<open>
  C7. With more results than channels, \<^verbatim>\<open>_ambient\<close> ends with an exception. Its
  uploads went to the channels in their order, one to each, from the first on:
  none is skipped, none is used twice, and there are no more uploads than
  channels. When every upload before goes through, the exception is the
  \<^verbatim>\<open>StopIteration\<close> of \<^verbatim>\<open>next\<close> on the exhausted channel list, after one upload to each
  channel. A whole run whose sieve yields more addresses than there are channels
  ends with an exception as well.
\<close>

theorem ambient_channels_exhausted:
  assumes "length chs < length (fst results)"
  shows "failure (ambient lib (Some chs) results) \<noteq> None
    \<and> length (uploads (ambient lib (Some chs) results)) \<le> length chs
    \<and> map (\<lambda>u. (Some (channel_id u), Some (write_key u))) (uploads (ambient lib (Some chs) results))
        = map (\<lambda>c. (c ''id'', c ''write_key''))
            (take (length (uploads (ambient lib (Some chs) results))) chs)
    \<and> ((\<forall>(c, r)\<in>set (zip chs (fst results)). upload_ok lib c r) \<longrightarrow>
         ambient lib (Some chs) results =
           \<lparr>uploads = map (\<lambda>(c, r). upload_of lib c r) (zip chs (fst results)),
            failure = Some StopIteration\<rparr>)
    \<and> (get_ip_addresses search command loads = Inr ips \<and> length chs < length (yields ips) \<longrightarrow>
         failure (run lib (Inr (Some chs)) search command loads read_result) \<noteq> None)"
proof (intro conjI impI)
  obtain us f where l: "ambient_loop lib chs (fst results) = (us, f)"
    by (cases "ambient_loop lib chs (fst results)")
  have f: "f \<noteq> None"
    using ambient_loop_exhausted[OF assms, of lib] l by simp
  have a: "ambient lib (Some chs) results = \<lparr>uploads = us, failure = f\<rparr>"
    using f by (auto simp: ambient_def l)
  show "failure (ambient lib (Some chs) results) \<noteq> None"
    using f by (simp add: a)
  show "length (uploads (ambient lib (Some chs) results)) \<le> length chs"
    using ambient_loop_channels[OF l] by (simp add: a)
  show "map (\<lambda>u. (Some (channel_id u), Some (write_key u))) (uploads (ambient lib (Some chs) results))
        = map (\<lambda>c. (c ''id'', c ''write_key''))
            (take (length (uploads (ambient lib (Some chs) results))) chs)"
    using ambient_loop_channels[OF l] by (simp add: a)
  show "ambient lib (Some chs) results =
           \<lparr>uploads = map (\<lambda>(c, r). upload_of lib c r) (zip chs (fst results)),
            failure = Some StopIteration\<rparr>"
    if "\<forall>(c, r)\<in>set (zip chs (fst results)). upload_ok lib c r"
    using ambient_loop_ok[OF that] assms by (simp add: ambient_def)
  show "failure (run lib (Inr (Some chs)) search command loads read_result) \<noteq> None"
    if h: "get_ip_addresses search command loads = Inr ips \<and> length chs < length (yields ips)"
  proof -
    obtain rs r where m: "map_results (speed_test command read_result) (yields ips) (raised ips) = (rs, r)"
      by (cases "map_results (speed_test command read_result) (yields ips) (raised ips)")
    obtain us' f' where l': "ambient_loop lib chs rs = (us', f')"
      by (cases "ambient_loop lib chs rs")
    have run: "run lib (Inr (Some chs)) search command loads read_result =
        \<lparr>uploads = us', failure = (case f' of Some e \<Rightarrow> Some e | None \<Rightarrow> r)\<rparr>"
      using h by (cases f') (simp_all add: run_def ambient_def m l')
    from map_results_length[OF m]
    consider "length rs = length (yields ips)" | "r \<noteq> None" by blast
    then show ?thesis
    proof cases
      case 1
      with h have "length chs < length rs" by simp
      from ambient_loop_exhausted[OF this, of lib] l' have "f' \<noteq> None" by simp
      then show ?thesis by (auto simp: run)
    next
      case 2
      then show ?thesis by (cases f') (auto simp: run)
    qed
  qed
qed

theorem ambient_channels_exhausted_witness:
  "length [example_channel1] < length [example_result, example_result]
   \<and> upload_ok example_library example_channel1 example_result
   \<and> ambient example_library (Some [example_channel1])
        ([example_result, example_result], None)
      = \<lparr>uploads = [upload_of example_library example_channel1 example_result],
         failure = Some StopIteration\<rparr>
   \<and> get_ip_addresses re_search example_run_command (\<lambda>out. Inr example_listing)
      = Inr \<lparr>yields = [PStr ''10.0.0.5'', PStr ''2001:db8:1::5''], raised = None,
             calls = [address_args, route_args True, route_args False]\<rparr>
   \<and> failure (run example_library (Inr (Some [example_channel1])) re_search
        example_run_command (\<lambda>out. Inr example_listing) (\<lambda>out. Inr example_result)) \<noteq> None"
proof -
  have n: "length [example_channel1]
      < length (fst ([example_result, example_result], None :: exn option))"
    by simp
  have ok: "upload_ok example_library example_channel1 example_result"
    by code_simp
  have g: "get_ip_addresses re_search example_run_command (\<lambda>out. Inr example_listing)
      = Inr \<lparr>yields = [PStr ''10.0.0.5'', PStr ''2001:db8:1::5''], raised = None,
             calls = [address_args, route_args True, route_args False]\<rparr>"
    by code_simp
  have b: "\<forall>(c, r)\<in>set (zip [example_channel1]
      (fst ([example_result, example_result], None :: exn option))). upload_ok example_library c r"
    by (simp add: ok)
  have m: "length [example_channel1]
      < length (yields \<lparr>yields = [PStr ''10.0.0.5'', PStr ''2001:db8:1::5''], raised = None,
             calls = [address_args, route_args True, route_args False]\<rparr>)"
    by simp
  note T = ambient_channels_exhausted[OF n, of example_library re_search example_run_command
      "\<lambda>out. Inr example_listing"
      "\<lparr>yields = [PStr ''10.0.0.5'', PStr ''2001:db8:1::5''], raised = None,
             calls = [address_args, route_args True, route_args False]\<rparr>"
      "\<lambda>out. Inr example_result"]
  note T3 = T[THEN conjunct2, THEN conjunct2, THEN conjunct2]
  from T3[THEN conjunct1, THEN mp, OF b]
  have a: "ambient example_library (Some [example_channel1])
        ([example_result, example_result], None)
      = \<lparr>uploads = [upload_of example_library example_channel1 example_result],
         failure = Some StopIteration\<rparr>"
    by simp
  from T3[THEN conjunct2, THEN mp, OF conjI[OF g m]]
  have r: "failure (run example_library (Inr (Some [example_channel1])) re_search
        example_run_command (\<lambda>out. Inr example_listing) (\<lambda>out. Inr example_result)) \<noteq> None" .
  have n': "length [example_channel1] < length [example_result, example_result]"
    by simp
  from n' ok a g r show ?thesis by blast
qed

section \<open>The payload and the uploads\<close>

lemma payload_keys:
  "''d'' @ str_nat 1 = ''d1''" "''d'' @ str_nat 2 = ''d2''" "''d'' @ str_nat 3 = ''d3''"
  "''d'' @ str_nat 4 = ''d4''" "''d'' @ str_nat 5 = ''d5''"
  by (simp_all add: str_nat_digit)

lemma to_ambient_data_Inr:
  "mbps (truediv lib) (download_bytesps r) = Inr dl \<Longrightarrow>
   mbps (truediv lib) (upload_bytesps r) = Inr ul \<Longrightarrow>
   to_ambient_data lib r =
     ([latency_ms r, jitter_ms r, PyFloat dl, PyFloat ul]
      @ (case packet_loss r of None \<Rightarrow> [] | Some p \<Rightarrow> [p]), None)"
  by (simp add: to_ambient_data_def)

text \<open>
  C8. When the two divisions of each throughput and the rendering of the timestamp
  go through, the payload of a result has \<^verbatim>\<open>d1\<close> for the latency, \<^verbatim>\<open>d2\<close> for the
  jitter, \<^verbatim>\<open>d3\<close> for the download throughput times 8, divided by 1000 and again by
  1000, \<^verbatim>\<open>d4\<close> for the same of the upload throughput, \<^verbatim>\<open>d5\<close> for the packet loss
  exactly when there is one, and \<^verbatim>\<open>created\<close> for the timestamp, moved to the
  offset of nine hours and written in the format \<^verbatim>\<open>%Y-%m-%d %H:%M:%S\<close>; it has no
  other key. When there are at least as many channels as results and every upload
  goes through, \<^verbatim>\<open>_ambient\<close> makes one upload for each result, in order, the
  upload of the result at a position to the channel at that position, with the
  payload of that result, and ends without an exception.
\<close>

theorem to_ambient_payload:
  assumes "astimezone lib (timestamp r) (9 * 60 * 60) = Inr t"
    and "strftime lib t ''%Y-%m-%d %H:%M:%S'' = Inr created"
    and "truediv lib (PyInt (download_bytesps r * 8)) (PyInt 1000) = Inr dk"
    and "truediv lib (PyFloat dk) (PyInt 1000) = Inr dl"
    and "truediv lib (PyInt (upload_bytesps r * 8)) (PyInt 1000) = Inr uk"
    and "truediv lib (PyFloat uk) (PyInt 1000) = Inr ul"
  shows "(\<exists>m. to_ambient lib r = Inr m
            \<and> m ''d1'' = Some (latency_ms r) \<and> m ''d2'' = Some (jitter_ms r)
            \<and> m ''d3'' = Some (PyFloat dl) \<and> m ''d4'' = Some (PyFloat ul)
            \<and> m ''d5'' = packet_loss r
            \<and> m ''created'' = Some (PyStr created)
            \<and> dom m = {''d1'', ''d2'', ''d3'', ''d4'', ''created''}
                 \<union> (case packet_loss r of None \<Rightarrow> {} | Some p \<Rightarrow> {''d5''}))
       \<and> ((\<forall>(c, x)\<in>set (zip chs rs). upload_ok lib c x) \<and> length rs \<le> length chs \<longrightarrow>
            ambient lib (Some chs) (rs, None) =
              \<lparr>uploads = map (\<lambda>(c, x). upload_of lib c x) (zip chs rs), failure = None\<rparr>
            \<and> length (uploads (ambient lib (Some chs) (rs, None))) = length rs
            \<and> (\<forall>i<length rs.
                  uploads (ambient lib (Some chs) (rs, None)) ! i = upload_of lib (chs ! i) (rs ! i)))"
proof (intro conjI impI)
  have d: "mbps (truediv lib) (download_bytesps r) = Inr dl"
    using assms(3,4) by (rule mbps_Inr)
  have u: "mbps (truediv lib) (upload_bytesps r) = Inr ul"
    using assms(5,6) by (rule mbps_Inr)
  have tz: "astimezone lib (timestamp r) TIMEZONE_OFFSET = Inr t"
    using assms(1) by (simp add: TIMEZONE_OFFSET_def)
  show "\<exists>m. to_ambient lib r = Inr m
            \<and> m ''d1'' = Some (latency_ms r) \<and> m ''d2'' = Some (jitter_ms r)
            \<and> m ''d3'' = Some (PyFloat dl) \<and> m ''d4'' = Some (PyFloat ul)
            \<and> m ''d5'' = packet_loss r
            \<and> m ''created'' = Some (PyStr created)
            \<and> dom m = {''d1'', ''d2'', ''d3'', ''d4'', ''created''}
                 \<union> (case packet_loss r of None \<Rightarrow> {} | Some p \<Rightarrow> {''d5''})"
  proof (cases "packet_loss r")
    case None
    then have "to_ambient lib r =
        Inr [''d1'' \<mapsto> latency_ms r, ''d2'' \<mapsto> jitter_ms r, ''d3'' \<mapsto> PyFloat dl,
             ''d4'' \<mapsto> PyFloat ul, ''created'' \<mapsto> PyStr created]"
      by (simp add: to_ambient_def to_ambient_data_Inr[OF d u] tz assms(2) payload_keys)
    with None show ?thesis by auto
  next
    case (Some p)
    then have "to_ambient lib r =
        Inr [''d1'' \<mapsto> latency_ms r, ''d2'' \<mapsto> jitter_ms r, ''d3'' \<mapsto> PyFloat dl,
             ''d4'' \<mapsto> PyFloat ul, ''d5'' \<mapsto> p, ''created'' \<mapsto> PyStr created]"
      by (simp add: to_ambient_def to_ambient_data_Inr[OF d u] tz assms(2) payload_keys)
    with Some show ?thesis by auto
  qed
next
  assume h: "(\<forall>(c, x)\<in>set (zip chs rs). upload_ok lib c x) \<and> length rs \<le> length chs"
  then have l: "ambient_loop lib chs rs = (map (\<lambda>(c, x). upload_of lib c x) (zip chs rs), None)"
    using ambient_loop_ok[of chs rs lib] by simp
  then show a: "ambient lib (Some chs) (rs, None) =
      \<lparr>uploads = map (\<lambda>(c, x). upload_of lib c x) (zip chs rs), failure = None\<rparr>"
    by (simp add: ambient_def)
  show "length (uploads (ambient lib (Some chs) (rs, None))) = length rs"
    using h by (simp add: a)
  show "\<forall>i<length rs. uploads (ambient lib (Some chs) (rs, None)) ! i = upload_of lib (chs ! i) (rs ! i)"
    using h by (simp add: a)
qed

theorem to_ambient_payload_witness:
  "(\<exists>m. to_ambient example_library example_result = Inr m
       \<and> m ''d1'' = Some (PyFloat (21, 2)) \<and> m ''d2'' = Some (PyInt 1)
       \<and> m ''d3'' = Some (PyFloat (92000000, 1000000))
       \<and> m ''d4'' = Some (PyFloat (20000000, 1000000))
       \<and> m ''d5'' = Some (PyInt 0)
       \<and> m ''created'' = Some (PyStr ''2024-05-01 21:00:00''))
   \<and> upload_ok example_library example_channel1 example_result
   \<and> upload_ok example_library example_channel2 example_result
   \<and> ambient example_library (Some [example_channel1, example_channel2])
        ([example_result, example_result], None)
      = \<lparr>uploads = [upload_of example_library example_channel1 example_result,
                    upload_of example_library example_channel2 example_result],
         failure = None\<rparr>"
proof -
  have a1: "astimezone example_library (timestamp example_result) (9 * 60 * 60) = Inr 1714597200"
    by (simp add: example_library_def example_result_def)
  have a2: "strftime example_library 1714597200 ''%Y-%m-%d %H:%M:%S'' = Inr ''2024-05-01 21:00:00''"
    by (simp add: example_library_def)
  have a3: "truediv example_library (PyInt (download_bytesps example_result * 8)) (PyInt 1000)
      = Inr (92000000, 1000)"
    by (simp add: example_library_def example_result_def)
  have a4: "truediv example_library (PyFloat (92000000, 1000)) (PyInt 1000) = Inr (92000000, 1000000)"
    by (simp add: example_library_def)
  have a5: "truediv example_library (PyInt (upload_bytesps example_result * 8)) (PyInt 1000)
      = Inr (20000000, 1000)"
    by (simp add: example_library_def example_result_def)
  have a6: "truediv example_library (PyFloat (20000000, 1000)) (PyInt 1000) = Inr (20000000, 1000000)"
    by (simp add: example_library_def)
  have ok1: "upload_ok example_library example_channel1 example_result"
    by code_simp
  have ok2: "upload_ok example_library example_channel2 example_result"
    by code_simp
  have v: "latency_ms example_result = PyFloat (21, 2)" "jitter_ms example_result = PyInt 1"
    "packet_loss example_result = Some (PyInt 0)"
    by (simp_all add: example_result_def)
  have b1: "\<forall>(c, x)\<in>set (zip [example_channel1, example_channel2] [example_result, example_result]).
              upload_ok example_library c x"
    by (simp add: ok1 ok2)
  have b2: "length [example_result, example_result] \<le> length [example_channel1, example_channel2]"
    by simp
  note T = to_ambient_payload[OF a1 a2 a3 a4 a5 a6, of "[example_channel1, example_channel2]"
      "[example_result, example_result]"]
  from T[THEN conjunct1] obtain m where m: "to_ambient example_library example_result = Inr m"
    "m ''d1'' = Some (latency_ms example_result)" "m ''d2'' = Some (jitter_ms example_result)"
    "m ''d3'' = Some (PyFloat (92000000, 1000000))" "m ''d4'' = Some (PyFloat (20000000, 1000000))"
    "m ''d5'' = packet_loss example_result" "m ''created'' = Some (PyStr ''2024-05-01 21:00:00'')"
    by blast
  from m have e: "\<exists>m. to_ambient example_library example_result = Inr m
       \<and> m ''d1'' = Some (PyFloat (21, 2)) \<and> m ''d2'' = Some (PyInt 1)
       \<and> m ''d3'' = Some (PyFloat (92000000, 1000000))
       \<and> m ''d4'' = Some (PyFloat (20000000, 1000000))
       \<and> m ''d5'' = Some (PyInt 0)
       \<and> m ''created'' = Some (PyStr ''2024-05-01 21:00:00'')"
    unfolding v by blast
  from T[THEN conjunct2, THEN mp, OF conjI[OF b1 b2], THEN conjunct1]
  have a: "ambient example_library (Some [example_channel1, example_channel2])
        ([example_result, example_result], None)
      = \<lparr>uploads = [upload_of example_library example_channel1 example_result,
                    upload_of example_library example_channel2 example_result],
         failure = None\<rparr>"
    by simp
  from e ok1 ok2 a show ?thesis by blast
qed

end
